theory Spec2Isabelle
  imports Main "HOL-Library.Sublist" "HOL-Library.Word"
begin

section \<open>Diagnostics of the transformation (transformation/utils/diagnostics.ts)\<close>

subsection \<open>Values of the host language and of the TypeScript API\<close>

text \<open>
  A JavaScript string is a list of characters; the 8-bit \<^typ>\<open>char\<close> stands for the code
  units U+0000 to U+00FF. The offsets and widths of a node are \<^typ>\<open>int\<close>: they are handed
  on and never printed.
\<close>

text \<open>\<open>ts.DiagnosticCategory\<close>, the enum of the TypeScript API.\<close>

datatype DiagnosticCategory = Warning | Error | Suggestion | Message

text \<open>
  \<open>ts.Node\<close>, as far as this file reads it: the three position queries
  \<open>node.getSourceFile()\<close>, \<open>node.getStart()\<close> and \<open>node.getWidth()\<close>. A node has more
  to it than its position; that is the extension part of the record scheme.
\<close>

record 'f Node =
  getSourceFile :: 'f
  getStart :: int
  getWidth :: int

text \<open>
  The object literal built at lines 12 to 18. The field \<open>length\<close> is named \<open>length'\<close>
  here, next to the list function of that name.
\<close>

record 'f Diagnostic =
  "file" :: 'f
  start :: int
  length' :: int
  messageText :: string
  category :: DiagnosticCategory

text \<open>
  \<open>type MessageProvider<TArgs> = string | ((...args: TArgs) => string)\<close>: the two
  constructors are the two answers of \<open>typeof message === "string"\<close>.
\<close>

datatype 'a MessageProvider = StringMessage string | FunctionMessage "'a \<Rightarrow> string"

text \<open>The apostrophe, which a string literal of the logic cannot end with.\<close>

abbreviation squote :: string where
  "squote \<equiv> [CHR 0x27]"

text \<open>
  A number, as a template literal prints it. \<open>Count n\<close> is a whole number from 0 to
  \<open>2^53 - 1\<close>; each of them is a number of JavaScript and prints as its decimal numeral.
  \<open>OtherNumber s\<close> is any other number (negative, fractional, larger, infinite or not a
  number), \<open>s\<close> being the text a template literal prints for it.
\<close>

definition digit :: "nat \<Rightarrow> char" where
  "digit d = char_of (48 + d)"

function decimal :: "nat \<Rightarrow> string" where
  "decimal n = (if n < 10 then [digit n] else decimal (n div 10) @ [digit (n mod 10)])"
  by pat_completeness auto
termination
  by (relation "measure (\<lambda>n. n)") auto

declare decimal.simps [simp del]

datatype JSNumber = Count "53 word" | OtherNumber string

fun Number_toString :: "JSNumber \<Rightarrow> string" where
  "Number_toString (Count n) = decimal (unat n)"
| "Number_toString (OtherNumber s) = s"

text \<open>
  \<open>String.prototype.toLowerCase\<close> on the code units U+0000 to U+00FF: the capital
  letters there are A to Z and U+00C0 to U+00DE without the multiplication sign U+00D7,
  each 32 below its small letter.
\<close>

definition char_toLowerCase :: "char \<Rightarrow> char" where
  "char_toLowerCase c =
     (let n = (of_char c :: nat)
      in if (65 \<le> n \<and> n \<le> 90) \<or> (192 \<le> n \<and> n \<le> 222 \<and> n \<noteq> 215)
         then char_of (n + 32) else c)"

definition toLowerCase :: "string \<Rightarrow> string" where
  "toLowerCase s = map char_toLowerCase s"

text \<open>
  Modelled from the spec: the enumeration \<open>AnnotationKind\<close>, declared in \<open>./annotations\<close>,
  "an external closed set of string-like tags". A tag is a string: the source puts it into
  template literals and calls \<open>toLowerCase\<close> on it.
\<close>

type_synonym AnnotationKind = string

text \<open>
  Modelled from the spec: the enumeration \<open>LuaTarget\<close>, declared in \<open>CompilerOptions\<close>,
  "an external closed set of output-target identifiers" with "one special-cased alias,
  all others rendered as <family> <version>". \<open>LuaJIT\<close> is the member the source compares
  with; \<open>OtherTarget v\<close> is any other member (\<open>Universal\<close> among them), \<open>v\<close> being the
  text a template literal prints for it.
\<close>

datatype LuaTarget = LuaJIT | OtherTarget string

subsection \<open>The factory builder (lines 8 to 23)\<close>

text \<open>
  Modelled from the spec: \<open>createSerialDiagnosticFactory\<close>, imported from \<open>../../utils\<close>.
  By the spec, calling a factory "returns DiagnosticRecord{span, category, text}", the
  record its three steps have just built: the factory made from a callback returns what
  the callback returns.
\<close>

definition createSerialDiagnosticFactory ::
    "(('f, 'z) Node_scheme \<Rightarrow> 'a \<Rightarrow> 'f Diagnostic) \<Rightarrow> ('f, 'z) Node_scheme \<Rightarrow> 'a \<Rightarrow> 'f Diagnostic" where
  "createSerialDiagnosticFactory createDiagnostic = createDiagnostic"

definition createDiagnosticFactory ::
    "DiagnosticCategory \<Rightarrow> 'a MessageProvider \<Rightarrow> ('f, 'z) Node_scheme \<Rightarrow> 'a \<Rightarrow> 'f Diagnostic" where
  "createDiagnosticFactory category' message =
     createSerialDiagnosticFactory (\<lambda>node args.
       \<lparr>file = getSourceFile node,
        start = getStart node,
        length' = getWidth node,
        messageText = (case message of StringMessage s \<Rightarrow> s | FunctionMessage f \<Rightarrow> f args),
        category = category'\<rparr>)"

definition createErrorDiagnosticFactory ::
    "'a MessageProvider \<Rightarrow> ('f, 'z) Node_scheme \<Rightarrow> 'a \<Rightarrow> 'f Diagnostic" where
  "createErrorDiagnosticFactory message = createDiagnosticFactory Error message"

definition createWarningDiagnosticFactory ::
    "'a MessageProvider \<Rightarrow> ('f, 'z) Node_scheme \<Rightarrow> 'a \<Rightarrow> 'f Diagnostic" where
  "createWarningDiagnosticFactory message = createDiagnosticFactory Warning message"

subsection \<open>What a template literal and a condition do with an optional string\<close>

text \<open>
  A parameter \<open>name?: string\<close> is a \<^typ>\<open>string option\<close>, \<open>None\<close> being \<open>undefined\<close>.
  \<open>ToBoolean\<close> is false on \<open>undefined\<close> and on the empty string; \<open>ToString\<close> is what
  \<open>${name}\<close> prints.
\<close>

fun ToBoolean :: "string option \<Rightarrow> bool" where
  "ToBoolean None = False"
| "ToBoolean (Some s) = (s \<noteq> [])"

fun ToString :: "string option \<Rightarrow> string" where
  "ToString None = ''undefined''"
| "ToString (Some s) = s"

subsection \<open>The catalog (lines 25 to 149)\<close>

text \<open>
  Each factory is built from a string or from a function; the function of a factory \<open>f\<close>,
  anonymous in the source, is \<open>f_message\<close> here. A factory built from a string accepts any
  arguments (\<open>TArgs\<close> is \<open>any[]\<close>): their type is a type variable.

  \<open>ts.SyntaxKind[kind]\<close> reads the name of a syntax kind from the enum object of the
  TypeScript API; that table is the parameter \<open>SyntaxKind\<close>.
\<close>

definition unsupportedNodeKind_message :: "('k \<Rightarrow> string) \<Rightarrow> 'k \<Rightarrow> string" where
  "unsupportedNodeKind_message SyntaxKind kind = ''Unsupported node kind '' @ SyntaxKind kind"

definition unsupportedNodeKind ::
    "('k \<Rightarrow> string) \<Rightarrow> ('f, 'z) Node_scheme \<Rightarrow> 'k \<Rightarrow> 'f Diagnostic" where
  "unsupportedNodeKind SyntaxKind =
     createErrorDiagnosticFactory (FunctionMessage (unsupportedNodeKind_message SyntaxKind))"

definition forbiddenForIn :: "('f, 'z) Node_scheme \<Rightarrow> 'x \<Rightarrow> 'f Diagnostic" where
  "forbiddenForIn = createErrorDiagnosticFactory
     (StringMessage ''Iterating over arrays with 'for ... in' is not allowed.'')"

definition unsupportedNoSelfFunctionConversion_message :: "string option \<Rightarrow> string" where
  "unsupportedNoSelfFunctionConversion_message name =
     (let nameReference = (if ToBoolean name then '' '' @ squote @ ToString name @ squote else [])
      in ''Unable to convert function with a 'this' parameter to function'' @ nameReference
           @ '' with no 'this'. ''
         @ ''To fix, wrap in an arrow function, or declare with 'this: void'.'')"

definition unsupportedNoSelfFunctionConversion ::
    "('f, 'z) Node_scheme \<Rightarrow> string option \<Rightarrow> 'f Diagnostic" where
  "unsupportedNoSelfFunctionConversion =
     createErrorDiagnosticFactory (FunctionMessage unsupportedNoSelfFunctionConversion_message)"

definition unsupportedSelfFunctionConversion_message :: "string option \<Rightarrow> string" where
  "unsupportedSelfFunctionConversion_message name =
     (let nameReference = (if ToBoolean name then '' '' @ squote @ ToString name @ squote else [])
      in ''Unable to convert function with no 'this' parameter to function'' @ nameReference
           @ '' with 'this'. ''
         @ ''To fix, wrap in an arrow function, or declare with 'this: any'.'')"

definition unsupportedSelfFunctionConversion ::
    "('f, 'z) Node_scheme \<Rightarrow> string option \<Rightarrow> 'f Diagnostic" where
  "unsupportedSelfFunctionConversion =
     createErrorDiagnosticFactory (FunctionMessage unsupportedSelfFunctionConversion_message)"

definition unsupportedOverloadAssignment_message :: "string option \<Rightarrow> string" where
  "unsupportedOverloadAssignment_message name =
     (let nameReference = (if ToBoolean name then '' to '' @ squote @ ToString name @ squote else [])
      in ''Unsupported assignment of function with different overloaded types for 'this'' @ squote
           @ nameReference @ ''. ''
         @ ''Overloads should all have the same type for 'this'.'')"

definition unsupportedOverloadAssignment ::
    "('f, 'z) Node_scheme \<Rightarrow> string option \<Rightarrow> 'f Diagnostic" where
  "unsupportedOverloadAssignment =
     createErrorDiagnosticFactory (FunctionMessage unsupportedOverloadAssignment_message)"

definition decoratorInvalidContext :: "('f, 'z) Node_scheme \<Rightarrow> 'x \<Rightarrow> 'f Diagnostic" where
  "decoratorInvalidContext = createErrorDiagnosticFactory
     (StringMessage ''Decorator function cannot have 'this: void'.'')"

definition annotationInvalidArgumentCount_message :: "AnnotationKind \<times> JSNumber \<times> JSNumber \<Rightarrow> string" where
  "annotationInvalidArgumentCount_message =
     (\<lambda>(kind, got, expected).
        squote @ ''@'' @ kind @ squote @ '' expects '' @ Number_toString expected
          @ '' arguments, but got '' @ Number_toString got @ ''.'')"

definition annotationInvalidArgumentCount ::
    "('f, 'z) Node_scheme \<Rightarrow> AnnotationKind \<times> JSNumber \<times> JSNumber \<Rightarrow> 'f Diagnostic" where
  "annotationInvalidArgumentCount =
     createErrorDiagnosticFactory (FunctionMessage annotationInvalidArgumentCount_message)"

definition extensionCannotConstruct :: "('f, 'z) Node_scheme \<Rightarrow> 'x \<Rightarrow> 'f Diagnostic" where
  "extensionCannotConstruct = createErrorDiagnosticFactory
     (StringMessage ''Cannot construct classes with '@extension' or '@metaExtension' annotation.'')"

definition extensionCannotExtend :: "('f, 'z) Node_scheme \<Rightarrow> 'x \<Rightarrow> 'f Diagnostic" where
  "extensionCannotExtend = createErrorDiagnosticFactory
     (StringMessage ''Cannot extend classes with '@extension' or '@metaExtension' annotation.'')"

definition extensionCannotExport :: "('f, 'z) Node_scheme \<Rightarrow> 'x \<Rightarrow> 'f Diagnostic" where
  "extensionCannotExport = createErrorDiagnosticFactory
     (StringMessage ''Cannot export classes with '@extension' or '@metaExtension' annotation.'')"

definition extensionInvalidInstanceOf :: "('f, 'z) Node_scheme \<Rightarrow> 'x \<Rightarrow> 'f Diagnostic" where
  "extensionInvalidInstanceOf = createErrorDiagnosticFactory
     (StringMessage
        ''Cannot use instanceof on classes with '@extension' or '@metaExtension' annotation.'')"

definition extensionAndMetaExtensionConflict :: "('f, 'z) Node_scheme \<Rightarrow> 'x \<Rightarrow> 'f Diagnostic" where
  "extensionAndMetaExtensionConflict = createErrorDiagnosticFactory
     (StringMessage
        ''Cannot use both '@extension' and '@metaExtension' annotations on the same class.'')"

definition metaExtensionMissingExtends :: "('f, 'z) Node_scheme \<Rightarrow> 'x \<Rightarrow> 'f Diagnostic" where
  "metaExtensionMissingExtends = createErrorDiagnosticFactory
     (StringMessage
        (squote @ ''@metaExtension' annotation requires the extension of the metatable class.''))"

definition invalidForRangeCall_message :: "string \<Rightarrow> string" where
  "invalidForRangeCall_message message = ''Invalid @forRange call: '' @ message @ ''.''"

definition invalidForRangeCall :: "('f, 'z) Node_scheme \<Rightarrow> string \<Rightarrow> 'f Diagnostic" where
  "invalidForRangeCall =
     createErrorDiagnosticFactory (FunctionMessage invalidForRangeCall_message)"

definition luaTableMustBeAmbient :: "('f, 'z) Node_scheme \<Rightarrow> 'x \<Rightarrow> 'f Diagnostic" where
  "luaTableMustBeAmbient = createErrorDiagnosticFactory
     (StringMessage ''Classes with the '@luaTable' annotation must be ambient.'')"

definition luaTableCannotBeExtended :: "('f, 'z) Node_scheme \<Rightarrow> 'x \<Rightarrow> 'f Diagnostic" where
  "luaTableCannotBeExtended = createErrorDiagnosticFactory
     (StringMessage ''Cannot extend classes with the '@luaTable' annotation.'')"

definition luaTableInvalidInstanceOf :: "('f, 'z) Node_scheme \<Rightarrow> 'x \<Rightarrow> 'f Diagnostic" where
  "luaTableInvalidInstanceOf = createErrorDiagnosticFactory
     (StringMessage ''The instanceof operator cannot be used with a '@luaTable' class.'')"

definition luaTableCannotBeAccessedDynamically :: "('f, 'z) Node_scheme \<Rightarrow> 'x \<Rightarrow> 'f Diagnostic" where
  "luaTableCannotBeAccessedDynamically = createErrorDiagnosticFactory
     (StringMessage ''@luaTable cannot be accessed dynamically.'')"

definition luaTableForbiddenUsage_message :: "string \<Rightarrow> string" where
  "luaTableForbiddenUsage_message description = ''Invalid @luaTable usage: '' @ description @ ''.''"

definition luaTableForbiddenUsage :: "('f, 'z) Node_scheme \<Rightarrow> string \<Rightarrow> 'f Diagnostic" where
  "luaTableForbiddenUsage =
     createErrorDiagnosticFactory (FunctionMessage luaTableForbiddenUsage_message)"

definition luaIteratorForbiddenUsage :: "('f, 'z) Node_scheme \<Rightarrow> 'x \<Rightarrow> 'f Diagnostic" where
  "luaIteratorForbiddenUsage = createErrorDiagnosticFactory
     (StringMessage
        (''Unsupported use of lua iterator with '@tupleReturn' annotation in for...of statement. ''
         @ ''You must use a destructuring statement to catch results from a lua iterator with ''
         @ ''the '@tupleReturn' annotation.''))"

definition unsupportedAccessorInObjectLiteral :: "('f, 'z) Node_scheme \<Rightarrow> 'x \<Rightarrow> 'f Diagnostic" where
  "unsupportedAccessorInObjectLiteral = createErrorDiagnosticFactory
     (StringMessage ''Accessors in object literal are not supported.'')"

definition unsupportedRightShiftOperator :: "('f, 'z) Node_scheme \<Rightarrow> 'x \<Rightarrow> 'f Diagnostic" where
  "unsupportedRightShiftOperator = createErrorDiagnosticFactory
     (StringMessage
        ''Right shift operator is not supported for target Lua 5.3. Use `>>>` instead.'')"

text \<open>
  \<open>version === LuaTarget.LuaJIT ? "LuaJIT" : `Lua ${version}`\<close>: the first case is the
  test that succeeds, the second every other member.
\<close>

definition getLuaTargetName :: "LuaTarget \<Rightarrow> string" where
  "getLuaTargetName version =
     (case version of LuaJIT \<Rightarrow> ''LuaJIT'' | OtherTarget v \<Rightarrow> ''Lua '' @ v)"

definition unsupportedForTarget_message :: "string \<times> LuaTarget \<Rightarrow> string" where
  "unsupportedForTarget_message =
     (\<lambda>(functionality, version).
        functionality @ '' is/are not supported for target '' @ getLuaTargetName version @ ''.'')"

definition unsupportedForTarget ::
    "('f, 'z) Node_scheme \<Rightarrow> string \<times> LuaTarget \<Rightarrow> 'f Diagnostic" where
  "unsupportedForTarget =
     createErrorDiagnosticFactory (FunctionMessage unsupportedForTarget_message)"

definition unsupportedProperty_message :: "string \<times> string \<Rightarrow> string" where
  "unsupportedProperty_message =
     (\<lambda>(parentName, property). parentName @ ''.'' @ property @ '' is unsupported.'')"

definition unsupportedProperty ::
    "('f, 'z) Node_scheme \<Rightarrow> string \<times> string \<Rightarrow> 'f Diagnostic" where
  "unsupportedProperty =
     createErrorDiagnosticFactory (FunctionMessage unsupportedProperty_message)"

definition invalidAmbientIdentifierName_message :: "string \<Rightarrow> string" where
  "invalidAmbientIdentifierName_message text' =
     ''Invalid ambient identifier name '' @ squote @ text' @ squote
       @ ''. Ambient identifiers must be valid lua identifiers.''"

definition invalidAmbientIdentifierName :: "('f, 'z) Node_scheme \<Rightarrow> string \<Rightarrow> 'f Diagnostic" where
  "invalidAmbientIdentifierName =
     createErrorDiagnosticFactory (FunctionMessage invalidAmbientIdentifierName_message)"

definition unresolvableRequirePath_message :: "string \<Rightarrow> string" where
  "unresolvableRequirePath_message path =
     ''Cannot create require path. Module '' @ squote @ path @ squote
       @ '' does not exist within --rootDir.''"

definition unresolvableRequirePath :: "('f, 'z) Node_scheme \<Rightarrow> string \<Rightarrow> 'f Diagnostic" where
  "unresolvableRequirePath =
     createErrorDiagnosticFactory (FunctionMessage unresolvableRequirePath_message)"

definition unsupportedVarDeclaration :: "('f, 'z) Node_scheme \<Rightarrow> 'x \<Rightarrow> 'f Diagnostic" where
  "unsupportedVarDeclaration = createErrorDiagnosticFactory
     (StringMessage ''`var` declarations are not supported. Use `let` or `const` instead.'')"

definition annotationDeprecated_message :: "AnnotationKind \<Rightarrow> string" where
  "annotationDeprecated_message kind =
     squote @ ''@'' @ kind @ squote
       @ '' is deprecated and will be removed in a future update. Please update your code before upgrading to the next release, otherwise your project will no longer compile. ''
     @ ''See https://typescripttolua.github.io/docs/advanced/compiler-annotations#''
       @ toLowerCase kind @ '' for more information.''"

definition annotationDeprecated ::
    "('f, 'z) Node_scheme \<Rightarrow> AnnotationKind \<Rightarrow> 'f Diagnostic" where
  "annotationDeprecated =
     createWarningDiagnosticFactory (FunctionMessage annotationDeprecated_message)"

subsection \<open>A call of a catalog factory\<close>

text \<open>
  The exports of the module are functions of different argument types. To speak of every one
  of them at once, a call names the factory and carries its arguments, of the declared
  types; \<open>invoke\<close> hands them to the factory.
\<close>

datatype ('k, 'x) Call =
    UnsupportedNodeKind 'k
  | ForbiddenForIn 'x
  | UnsupportedNoSelfFunctionConversion "string option"
  | UnsupportedSelfFunctionConversion "string option"
  | UnsupportedOverloadAssignment "string option"
  | DecoratorInvalidContext 'x
  | AnnotationInvalidArgumentCount AnnotationKind JSNumber JSNumber
  | ExtensionCannotConstruct 'x
  | ExtensionCannotExtend 'x
  | ExtensionCannotExport 'x
  | ExtensionInvalidInstanceOf 'x
  | ExtensionAndMetaExtensionConflict 'x
  | MetaExtensionMissingExtends 'x
  | InvalidForRangeCall string
  | LuaTableMustBeAmbient 'x
  | LuaTableCannotBeExtended 'x
  | LuaTableInvalidInstanceOf 'x
  | LuaTableCannotBeAccessedDynamically 'x
  | LuaTableForbiddenUsage string
  | LuaIteratorForbiddenUsage 'x
  | UnsupportedAccessorInObjectLiteral 'x
  | UnsupportedRightShiftOperator 'x
  | UnsupportedForTarget string LuaTarget
  | UnsupportedProperty string string
  | InvalidAmbientIdentifierName string
  | UnresolvableRequirePath string
  | UnsupportedVarDeclaration 'x
  | AnnotationDeprecated AnnotationKind

fun invoke :: "('k \<Rightarrow> string) \<Rightarrow> ('k, 'x) Call \<Rightarrow> ('f, 'z) Node_scheme \<Rightarrow> 'f Diagnostic" where
  "invoke SyntaxKind (UnsupportedNodeKind kind) node = unsupportedNodeKind SyntaxKind node kind"
| "invoke SyntaxKind (ForbiddenForIn args) node = forbiddenForIn node args"
| "invoke SyntaxKind (UnsupportedNoSelfFunctionConversion name) node =
     unsupportedNoSelfFunctionConversion node name"
| "invoke SyntaxKind (UnsupportedSelfFunctionConversion name) node =
     unsupportedSelfFunctionConversion node name"
| "invoke SyntaxKind (UnsupportedOverloadAssignment name) node =
     unsupportedOverloadAssignment node name"
| "invoke SyntaxKind (DecoratorInvalidContext args) node = decoratorInvalidContext node args"
| "invoke SyntaxKind (AnnotationInvalidArgumentCount kind got expected) node =
     annotationInvalidArgumentCount node (kind, got, expected)"
| "invoke SyntaxKind (ExtensionCannotConstruct args) node = extensionCannotConstruct node args"
| "invoke SyntaxKind (ExtensionCannotExtend args) node = extensionCannotExtend node args"
| "invoke SyntaxKind (ExtensionCannotExport args) node = extensionCannotExport node args"
| "invoke SyntaxKind (ExtensionInvalidInstanceOf args) node = extensionInvalidInstanceOf node args"
| "invoke SyntaxKind (ExtensionAndMetaExtensionConflict args) node =
     extensionAndMetaExtensionConflict node args"
| "invoke SyntaxKind (MetaExtensionMissingExtends args) node =
     metaExtensionMissingExtends node args"
| "invoke SyntaxKind (InvalidForRangeCall message) node = invalidForRangeCall node message"
| "invoke SyntaxKind (LuaTableMustBeAmbient args) node = luaTableMustBeAmbient node args"
| "invoke SyntaxKind (LuaTableCannotBeExtended args) node = luaTableCannotBeExtended node args"
| "invoke SyntaxKind (LuaTableInvalidInstanceOf args) node = luaTableInvalidInstanceOf node args"
| "invoke SyntaxKind (LuaTableCannotBeAccessedDynamically args) node =
     luaTableCannotBeAccessedDynamically node args"
| "invoke SyntaxKind (LuaTableForbiddenUsage description) node =
     luaTableForbiddenUsage node description"
| "invoke SyntaxKind (LuaIteratorForbiddenUsage args) node = luaIteratorForbiddenUsage node args"
| "invoke SyntaxKind (UnsupportedAccessorInObjectLiteral args) node =
     unsupportedAccessorInObjectLiteral node args"
| "invoke SyntaxKind (UnsupportedRightShiftOperator args) node =
     unsupportedRightShiftOperator node args"
| "invoke SyntaxKind (UnsupportedForTarget functionality version) node =
     unsupportedForTarget node (functionality, version)"
| "invoke SyntaxKind (UnsupportedProperty parentName property) node =
     unsupportedProperty node (parentName, property)"
| "invoke SyntaxKind (InvalidAmbientIdentifierName text') node =
     invalidAmbientIdentifierName node text'"
| "invoke SyntaxKind (UnresolvableRequirePath path) node = unresolvableRequirePath node path"
| "invoke SyntaxKind (UnsupportedVarDeclaration args) node = unsupportedVarDeclaration node args"
| "invoke SyntaxKind (AnnotationDeprecated kind) node = annotationDeprecated node kind"

subsection \<open>A call on a node whose queries may throw\<close>



subsection \<open>Examples and the spec's wording\<close>


text \<open>\<open>insertAt i ins s\<close> is \<open>s\<close> with \<open>ins\<close> put in front of its position \<open>i\<close>.\<close>

definition insertAt :: "nat \<Rightarrow> string \<Rightarrow> string \<Rightarrow> string" where
  "insertAt i ins s = take i s @ ins @ drop i s"

text \<open>
  The spec's policy for an optional name, in its words: the formatting "always inserts a
  single leading space plus quoted name when present", and "no other punctuation varies".
  So the text with the name is the text without it, with a space and the name in single
  quotes inserted at one position.
\<close>

definition spec_optional_name_policy :: "string \<Rightarrow> string \<Rightarrow> string \<Rightarrow> bool" where
  "spec_optional_name_policy name unnamed named =
     list_ex (\<lambda>i. named = insertAt i ('' '' @ squote @ name @ squote) unnamed)
       [0..<Suc (length unnamed)]"

section \<open>Properties\<close>

subsection \<open>What the builder and the catalog compute\<close>

lemma createDiagnosticFactory_record:
  "createDiagnosticFactory c m node args =
     \<lparr>file = getSourceFile node, start = getStart node, length' = getWidth node,
      messageText = (case m of StringMessage s \<Rightarrow> s | FunctionMessage f \<Rightarrow> f args),
      category = c\<rparr>"
  by (simp add: createDiagnosticFactory_def createSerialDiagnosticFactory_def)

lemmas severity_defs = createErrorDiagnosticFactory_def createWarningDiagnosticFactory_def

lemmas catalog_defs =
  unsupportedNodeKind_def forbiddenForIn_def unsupportedNoSelfFunctionConversion_def
  unsupportedSelfFunctionConversion_def unsupportedOverloadAssignment_def
  decoratorInvalidContext_def annotationInvalidArgumentCount_def extensionCannotConstruct_def
  extensionCannotExtend_def extensionCannotExport_def extensionInvalidInstanceOf_def
  extensionAndMetaExtensionConflict_def metaExtensionMissingExtends_def invalidForRangeCall_def
  luaTableMustBeAmbient_def luaTableCannotBeExtended_def luaTableInvalidInstanceOf_def
  luaTableCannotBeAccessedDynamically_def luaTableForbiddenUsage_def
  luaIteratorForbiddenUsage_def unsupportedAccessorInObjectLiteral_def
  unsupportedRightShiftOperator_def unsupportedForTarget_def unsupportedProperty_def
  invalidAmbientIdentifierName_def unresolvableRequirePath_def unsupportedVarDeclaration_def
  annotationDeprecated_def

lemma function_messageText:
  "messageText (createErrorDiagnosticFactory (FunctionMessage f) node args) = f args"
  "messageText (createWarningDiagnosticFactory (FunctionMessage f) node args) = f args"
  by (simp_all add: severity_defs createDiagnosticFactory_record)

lemma string_messageText:
  "messageText (createErrorDiagnosticFactory (StringMessage s) node args) = s"
  "messageText (createWarningDiagnosticFactory (StringMessage s) node args) = s"
  by (simp_all add: severity_defs createDiagnosticFactory_record)

lemma catalog_messageText:
  "messageText (unsupportedNodeKind S node kind') = unsupportedNodeKind_message S kind'"
  "messageText (unsupportedNoSelfFunctionConversion node name)
     = unsupportedNoSelfFunctionConversion_message name"
  "messageText (unsupportedSelfFunctionConversion node name)
     = unsupportedSelfFunctionConversion_message name"
  "messageText (unsupportedOverloadAssignment node name)
     = unsupportedOverloadAssignment_message name"
  "messageText (annotationInvalidArgumentCount node counts)
     = annotationInvalidArgumentCount_message counts"
  "messageText (invalidForRangeCall node message) = invalidForRangeCall_message message"
  "messageText (luaTableForbiddenUsage node description)
     = luaTableForbiddenUsage_message description"
  "messageText (unsupportedForTarget node target) = unsupportedForTarget_message target"
  "messageText (unsupportedProperty node names) = unsupportedProperty_message names"
  "messageText (invalidAmbientIdentifierName node text')
     = invalidAmbientIdentifierName_message text'"
  "messageText (unresolvableRequirePath node path) = unresolvableRequirePath_message path"
  "messageText (annotationDeprecated node kind) = annotationDeprecated_message kind"
  by (simp_all add: catalog_defs function_messageText)

lemma invoke_file: "file (invoke S call node) = getSourceFile node"
  by (cases call) (simp_all add: catalog_defs severity_defs createDiagnosticFactory_record)

lemma invoke_start: "start (invoke S call node) = getStart node"
  by (cases call) (simp_all add: catalog_defs severity_defs createDiagnosticFactory_record)

lemma invoke_length: "length' (invoke S call node) = getWidth node"
  by (cases call) (simp_all add: catalog_defs severity_defs createDiagnosticFactory_record)

lemma invoke_category:
  "category (invoke S call node) = (case call of AnnotationDeprecated kind \<Rightarrow> Warning | _ \<Rightarrow> Error)"
  by (cases call) (simp_all add: catalog_defs severity_defs createDiagnosticFactory_record)

lemma insertAt_length: "length (insertAt i ins s) = length s + length ins"
  by (simp add: insertAt_def)

lemma spec_optional_name_policy_length:
  "spec_optional_name_policy name unnamed named \<Longrightarrow>
     length named = length unnamed + length name + 3"
  by (auto simp: spec_optional_name_policy_def list_ex_iff insertAt_length)

subsection \<open>The span of a diagnostic\<close>

text \<open>
  C1. For every catalog factory, every node and every argument list, the record the
  factory returns has its \<open>file\<close>, \<open>start\<close> and \<open>length\<close> equal to what the node answers to
  \<open>getSourceFile()\<close>, \<open>getStart()\<close> and \<open>getWidth()\<close>, unchanged. The first three equations
  are about any factory the builder makes, the last three about every call of the catalog.
\<close>

theorem factory_span:
  "file (createDiagnosticFactory c m node args) = getSourceFile node
   \<and> start (createDiagnosticFactory c m node args) = getStart node
   \<and> length' (createDiagnosticFactory c m node args) = getWidth node
   \<and> file (invoke S call node) = getSourceFile node
   \<and> start (invoke S call node) = getStart node
   \<and> length' (invoke S call node) = getWidth node"
  by (simp add: createDiagnosticFactory_record invoke_file invoke_start invoke_length)

subsection \<open>The three factories with an optional name\<close>

text \<open>
  C2, as the code has it. Without a name the text of the record of each of the three
  factories is a fixed sentence with nothing inserted. With a name that is not empty,
  \<open>unsupportedNoSelfFunctionConversion\<close> and \<open>unsupportedSelfFunctionConversion\<close> insert one
  space and the name in single quotes after the word "function", and
  \<open>unsupportedOverloadAssignment\<close> inserts the word "to" between two spaces and the name in
  single quotes after \<open>'this'\<close>. The text before and after the insertion is the same in
  both shapes.
\<close>

theorem optional_name_text:
  "messageText (unsupportedNoSelfFunctionConversion node None)
     = ''Unable to convert function with a 'this' parameter to function''
       @ '' with no 'this'. To fix, wrap in an arrow function, or declare with 'this: void'.''
   \<and> (name \<noteq> [] \<longrightarrow> messageText (unsupportedNoSelfFunctionConversion node (Some name))
     = ''Unable to convert function with a 'this' parameter to function''
       @ '' '' @ squote @ name @ squote
       @ '' with no 'this'. To fix, wrap in an arrow function, or declare with 'this: void'.'')
   \<and> messageText (unsupportedSelfFunctionConversion node None)
     = ''Unable to convert function with no 'this' parameter to function''
       @ '' with 'this'. To fix, wrap in an arrow function, or declare with 'this: any'.''
   \<and> (name \<noteq> [] \<longrightarrow> messageText (unsupportedSelfFunctionConversion node (Some name))
     = ''Unable to convert function with no 'this' parameter to function''
       @ '' '' @ squote @ name @ squote
       @ '' with 'this'. To fix, wrap in an arrow function, or declare with 'this: any'.'')
   \<and> messageText (unsupportedOverloadAssignment node None)
     = ''Unsupported assignment of function with different overloaded types for 'this'' @ squote
       @ ''. Overloads should all have the same type for 'this'.''
   \<and> (name \<noteq> [] \<longrightarrow> messageText (unsupportedOverloadAssignment node (Some name))
     = ''Unsupported assignment of function with different overloaded types for 'this'' @ squote
       @ '' to '' @ squote @ name @ squote
       @ ''. Overloads should all have the same type for 'this'.'')"
  by (simp add: catalog_messageText unsupportedNoSelfFunctionConversion_message_def
      unsupportedSelfFunctionConversion_message_def unsupportedOverloadAssignment_message_def)

text \<open>The texts of the three records for the name \<open>x\<close>.\<close>

theorem optional_name_text_witness:
  "''x'' \<noteq> []
   \<and> messageText (unsupportedNoSelfFunctionConversion
         \<lparr>getSourceFile = ''main.ts'', getStart = 3, getWidth = 5\<rparr> (Some ''x''))
     = ''Unable to convert function with a 'this' parameter to function 'x' with no 'this'. To fix, wrap in an arrow function, or declare with 'this: void'.''
   \<and> messageText (unsupportedSelfFunctionConversion
         \<lparr>getSourceFile = ''main.ts'', getStart = 3, getWidth = 5\<rparr> (Some ''x''))
     = ''Unable to convert function with no 'this' parameter to function 'x' with 'this'. To fix, wrap in an arrow function, or declare with 'this: any'.''
   \<and> messageText (unsupportedOverloadAssignment
         \<lparr>getSourceFile = ''main.ts'', getStart = 3, getWidth = 5\<rparr> (Some ''x''))
     = ''Unsupported assignment of function with different overloaded types for 'this' to 'x'. Overloads should all have the same type for 'this'.''"
  using optional_name_text
    [of "\<lparr>getSourceFile = ''main.ts'', getStart = 3, getWidth = 5\<rparr>" "''x''"]
  by simp

text \<open>
  C2 as the spec words it fails twice. For the name \<open>x\<close>, the record of
  \<open>unsupportedOverloadAssignment\<close> has \<open>to 'x'\<close> inserted after a space, which is more than
  a space and the quoted name. For the empty name, the record of
  \<open>unsupportedNoSelfFunctionConversion\<close> has nothing inserted, where a space and two quotes
  would be the quoted name.
\<close>

theorem optional_name_counterexample:
  "messageText (unsupportedOverloadAssignment
       \<lparr>getSourceFile = ''main.ts'', getStart = 3, getWidth = 5\<rparr> None)
     = ''Unsupported assignment of function with different overloaded types for 'this'. Overloads should all have the same type for 'this'.''
   \<and> messageText (unsupportedOverloadAssignment
       \<lparr>getSourceFile = ''main.ts'', getStart = 3, getWidth = 5\<rparr> (Some ''x''))
     = ''Unsupported assignment of function with different overloaded types for 'this' to 'x'. Overloads should all have the same type for 'this'.''
   \<and> \<not> spec_optional_name_policy ''x''
       (messageText (unsupportedOverloadAssignment
          \<lparr>getSourceFile = ''main.ts'', getStart = 3, getWidth = 5\<rparr> None))
       (messageText (unsupportedOverloadAssignment
          \<lparr>getSourceFile = ''main.ts'', getStart = 3, getWidth = 5\<rparr> (Some ''x'')))
   \<and> messageText (unsupportedNoSelfFunctionConversion
       \<lparr>getSourceFile = ''main.ts'', getStart = 3, getWidth = 5\<rparr> (Some []))
     = ''Unable to convert function with a 'this' parameter to function with no 'this'. To fix, wrap in an arrow function, or declare with 'this: void'.''
   \<and> \<not> spec_optional_name_policy []
       (messageText (unsupportedNoSelfFunctionConversion
          \<lparr>getSourceFile = ''main.ts'', getStart = 3, getWidth = 5\<rparr> None))
       (messageText (unsupportedNoSelfFunctionConversion
          \<lparr>getSourceFile = ''main.ts'', getStart = 3, getWidth = 5\<rparr> (Some [])))"
  by (auto dest!: spec_optional_name_policy_length
      simp: catalog_messageText unsupportedNoSelfFunctionConversion_message_def
      unsupportedOverloadAssignment_message_def)

subsection \<open>Argument counts\<close>

text \<open>
  C3. \<open>annotationInvalidArgumentCount\<close>, called on any node with the kind \<open>foo\<close>, \<open>got = 2\<close>
  and \<open>expected = 1\<close>, returns a record whose text is exactly
  \<open>'@foo' expects 1 arguments, but got 2.\<close>: the expected count comes first, and the word
  "arguments" stays in the plural for the count 1.
\<close>

theorem argument_count_text:
  "messageText (annotationInvalidArgumentCount node (''foo'', Count 2, Count 1))
     = '''@foo' expects 1 arguments, but got 2.''"
proof -
  have "annotationInvalidArgumentCount_message (''foo'', Count 2, Count 1)
     = '''@foo' expects 1 arguments, but got 2.''"
    by code_simp
  then show ?thesis
    by (simp add: catalog_messageText)
qed

subsection \<open>The deprecation warning\<close>

text \<open>
  C4. For the kind \<open>MyAnnotation\<close> the text of the record of \<open>annotationDeprecated\<close> holds the
  address ending in \<open>compiler-annotations#myannotation\<close>, with the tag in small letters, and
  holds \<open>'@MyAnnotation'\<close> as it was given; the tag does not follow the \<open>#\<close> in its original
  case. For every kind, the tag stands unchanged between the quotes and passes through
  \<open>toLowerCase\<close> after the \<open>#\<close>, and the one other factory that prints a tag,
  \<open>annotationInvalidArgumentCount\<close>, prints it unchanged: putting the tag in small letters
  is the only change the catalog makes to it.
\<close>

theorem deprecated_text:
  "sublist ''compiler-annotations#myannotation''
       (messageText (annotationDeprecated node ''MyAnnotation''))
   \<and> sublist (squote @ ''@MyAnnotation'' @ squote)
       (messageText (annotationDeprecated node ''MyAnnotation''))
   \<and> \<not> sublist ''#MyAnnotation'' (messageText (annotationDeprecated node ''MyAnnotation''))
   \<and> messageText (annotationDeprecated node kind)
       = squote @ ''@'' @ kind @ squote
         @ '' is deprecated and will be removed in a future update. Please update your code before upgrading to the next release, otherwise your project will no longer compile. See https://typescripttolua.github.io/docs/advanced/compiler-annotations#''
         @ toLowerCase kind @ '' for more information.''
   \<and> messageText (annotationInvalidArgumentCount node (kind, got, expected))
       = squote @ ''@'' @ kind @ squote @ '' expects '' @ Number_toString expected
         @ '' arguments, but got '' @ Number_toString got @ ''.''"
proof -
  have lower: "toLowerCase ''MyAnnotation'' = ''myannotation''"
    by code_simp
  have parts: "annotationDeprecated_message ''MyAnnotation''
      = (squote @ ''@MyAnnotation'' @ squote
         @ '' is deprecated and will be removed in a future update. Please update your code before upgrading to the next release, otherwise your project will no longer compile. See https://typescripttolua.github.io/docs/advanced/'')
        @ ''compiler-annotations#myannotation'' @ '' for more information.''"
    by (simp add: annotationDeprecated_message_def lower)
  have "sublist ''compiler-annotations#myannotation'' (annotationDeprecated_message ''MyAnnotation'')"
    unfolding parts by (rule sublist_appendI)
  moreover have "annotationDeprecated_message ''MyAnnotation''
      = [] @ (squote @ ''@MyAnnotation'' @ squote)
        @ '' is deprecated and will be removed in a future update. Please update your code before upgrading to the next release, otherwise your project will no longer compile. See https://typescripttolua.github.io/docs/advanced/compiler-annotations#myannotation for more information.''"
    by (simp add: annotationDeprecated_message_def lower)
  then have "sublist (squote @ ''@MyAnnotation'' @ squote) (annotationDeprecated_message ''MyAnnotation'')"
    by (metis sublist_appendI)
  moreover have "\<not> sublist ''#MyAnnotation'' (annotationDeprecated_message ''MyAnnotation'')"
    by code_simp
  moreover have "annotationDeprecated_message kind
       = squote @ ''@'' @ kind @ squote
         @ '' is deprecated and will be removed in a future update. Please update your code before upgrading to the next release, otherwise your project will no longer compile. See https://typescripttolua.github.io/docs/advanced/compiler-annotations#''
         @ toLowerCase kind @ '' for more information.''"
    by (simp add: annotationDeprecated_message_def)
  moreover have "annotationInvalidArgumentCount_message (kind, got, expected)
       = squote @ ''@'' @ kind @ squote @ '' expects '' @ Number_toString expected
         @ '' arguments, but got '' @ Number_toString got @ ''.''"
    by (simp add: annotationInvalidArgumentCount_message_def)
  ultimately show ?thesis
    by (simp only: catalog_messageText simp_thms)
qed

subsection \<open>The name of a target\<close>

text \<open>
  C5. \<open>getLuaTargetName\<close> gives the one word \<open>LuaJIT\<close> for the target \<open>LuaJIT\<close>, and for every
  other target the word \<open>Lua\<close>, a space and the target's own text, with no other name put
  in its place; the message function of \<open>unsupportedForTarget\<close> prints that name.
\<close>

theorem target_name:
  "getLuaTargetName LuaJIT = ''LuaJIT''
   \<and> getLuaTargetName (OtherTarget v) = ''Lua '' @ v
   \<and> unsupportedForTarget_message (functionality, LuaJIT)
       = functionality @ '' is/are not supported for target LuaJIT.''
   \<and> unsupportedForTarget_message (functionality, OtherTarget v)
       = functionality @ '' is/are not supported for target Lua '' @ v @ ''.''"
  by (simp add: getLuaTargetName_def unsupportedForTarget_message_def)

subsection \<open>Factories built from a string\<close>

text \<open>
  C6. The text of a record made by a factory that was built from a constant string is that
  string. The first equation says it for the builder; the others give, for each of the
  sixteen such factories of the catalog, the string itself. No right-hand side mentions the
  node or the arguments, so the text is the same in every call.
\<close>

theorem static_text:
  "messageText (createDiagnosticFactory c (StringMessage s) node args) = s
   \<and> messageText (forbiddenForIn node args)
       = ''Iterating over arrays with 'for ... in' is not allowed.''
   \<and> messageText (decoratorInvalidContext node args)
       = ''Decorator function cannot have 'this: void'.''
   \<and> messageText (extensionCannotConstruct node args)
       = ''Cannot construct classes with '@extension' or '@metaExtension' annotation.''
   \<and> messageText (extensionCannotExtend node args)
       = ''Cannot extend classes with '@extension' or '@metaExtension' annotation.''
   \<and> messageText (extensionCannotExport node args)
       = ''Cannot export classes with '@extension' or '@metaExtension' annotation.''
   \<and> messageText (extensionInvalidInstanceOf node args)
       = ''Cannot use instanceof on classes with '@extension' or '@metaExtension' annotation.''
   \<and> messageText (extensionAndMetaExtensionConflict node args)
       = ''Cannot use both '@extension' and '@metaExtension' annotations on the same class.''
   \<and> messageText (metaExtensionMissingExtends node args)
       = '''@metaExtension' annotation requires the extension of the metatable class.''
   \<and> messageText (luaTableMustBeAmbient node args)
       = ''Classes with the '@luaTable' annotation must be ambient.''
   \<and> messageText (luaTableCannotBeExtended node args)
       = ''Cannot extend classes with the '@luaTable' annotation.''
   \<and> messageText (luaTableInvalidInstanceOf node args)
       = ''The instanceof operator cannot be used with a '@luaTable' class.''
   \<and> messageText (luaTableCannotBeAccessedDynamically node args)
       = ''@luaTable cannot be accessed dynamically.''
   \<and> messageText (luaIteratorForbiddenUsage node args)
       = ''Unsupported use of lua iterator with '@tupleReturn' annotation in for...of statement. You must use a destructuring statement to catch results from a lua iterator with the '@tupleReturn' annotation.''
   \<and> messageText (unsupportedAccessorInObjectLiteral node args)
       = ''Accessors in object literal are not supported.''
   \<and> messageText (unsupportedRightShiftOperator node args)
       = ''Right shift operator is not supported for target Lua 5.3. Use `>>>` instead.''
   \<and> messageText (unsupportedVarDeclaration node args)
       = ''`var` declarations are not supported. Use `let` or `const` instead.''"
  by (simp add: catalog_defs string_messageText createDiagnosticFactory_record)

subsection \<open>The category of a diagnostic\<close>

text \<open>
  C7. The category of a record is the one its factory was built with, whatever the node
  and the arguments: \<open>Error\<close> from \<open>createErrorDiagnosticFactory\<close>, \<open>Warning\<close> from
  \<open>createWarningDiagnosticFactory\<close>. In the catalog that is \<open>Warning\<close> for
  \<open>annotationDeprecated\<close> and \<open>Error\<close> for every other factory.
\<close>

theorem category_fixed_at_construction:
  "category (createDiagnosticFactory c m node args) = c
   \<and> category (createErrorDiagnosticFactory m node args) = Error
   \<and> category (createWarningDiagnosticFactory m node args) = Warning
   \<and> category (invoke S call node) =
       (case call of AnnotationDeprecated kind \<Rightarrow> Warning | _ \<Rightarrow> Error)"
  by (simp add: severity_defs createDiagnosticFactory_record invoke_category)

subsection \<open>One record for every call whose queries return\<close>




subsection \<open>The empty name\<close>

text \<open>
  C10. For each of the three factories with an optional name, the empty string as the name
  gives a record with the text that no name gives: the condition \<open>name ? ... : ""\<close> is
  false on the empty string, and the fixed sentence has no quoted name in it.
\<close>

theorem empty_name_is_absent:
  "messageText (unsupportedNoSelfFunctionConversion node (Some []))
     = messageText (unsupportedNoSelfFunctionConversion node None)
   \<and> messageText (unsupportedSelfFunctionConversion node (Some []))
     = messageText (unsupportedSelfFunctionConversion node None)
   \<and> messageText (unsupportedOverloadAssignment node (Some []))
     = messageText (unsupportedOverloadAssignment node None)
   \<and> messageText (unsupportedNoSelfFunctionConversion node (Some []))
     = ''Unable to convert function with a 'this' parameter to function with no 'this'. To fix, wrap in an arrow function, or declare with 'this: void'.''
   \<and> messageText (unsupportedSelfFunctionConversion node (Some []))
     = ''Unable to convert function with no 'this' parameter to function with 'this'. To fix, wrap in an arrow function, or declare with 'this: any'.''
   \<and> messageText (unsupportedOverloadAssignment node (Some []))
     = ''Unsupported assignment of function with different overloaded types for 'this'. Overloads should all have the same type for 'this'.''"
  by (simp add: catalog_messageText unsupportedNoSelfFunctionConversion_message_def
      unsupportedSelfFunctionConversion_message_def unsupportedOverloadAssignment_message_def)

end
